theory Spec2Isabelle
  imports Complex_Main
begin

section \<open>Python values and arithmetic\<close>

text \<open>
  The notebook \<^verbatim>\<open>doc/Tutorials/hegde_cc07.ipynb\<close> runs on a Python 2.7 kernel (its
  metadata names \<^verbatim>\<open>python2\<close>, version 2.7.13).  Its own code builds numbers, tuples, lists
  and dicts and hands them to constructors of the pattern library.  Values are dynamically
  typed; floats are idealised as reals.
\<close>

datatype pyval = PyInt int | PyFloat real | PyStr string

datatype error = ZeroDivisionError | TypeError

type_synonym 'a result = "error + 'a"

type_synonym pytuple = "pyval list"

definition and_then :: "'a result \<Rightarrow> ('a \<Rightarrow> 'b result) \<Rightarrow> 'b result" where
  "and_then m f = (case m of Inl e \<Rightarrow> Inl e | Inr x \<Rightarrow> f x)"

text \<open>Multiplication: numbers multiply, a string times an int repeats the string.\<close>

fun py_mul :: "pyval \<Rightarrow> pyval \<Rightarrow> pyval result" where
  "py_mul (PyInt a) (PyInt b) = Inr (PyInt (a * b))"
| "py_mul (PyInt a) (PyFloat b) = Inr (PyFloat (of_int a * b))"
| "py_mul (PyFloat a) (PyInt b) = Inr (PyFloat (a * of_int b))"
| "py_mul (PyFloat a) (PyFloat b) = Inr (PyFloat (a * b))"
| "py_mul (PyStr s) (PyInt n) = Inr (PyStr (concat (replicate (nat n) s)))"
| "py_mul (PyInt n) (PyStr s) = Inr (PyStr (concat (replicate (nat n) s)))"
| "py_mul _ _ = Inl TypeError"

fun py_add :: "pyval \<Rightarrow> pyval \<Rightarrow> pyval result" where
  "py_add (PyInt a) (PyInt b) = Inr (PyInt (a + b))"
| "py_add (PyInt a) (PyFloat b) = Inr (PyFloat (of_int a + b))"
| "py_add (PyFloat a) (PyInt b) = Inr (PyFloat (a + of_int b))"
| "py_add (PyFloat a) (PyFloat b) = Inr (PyFloat (a + b))"
| "py_add (PyStr s) (PyStr t) = Inr (PyStr (s @ t))"
| "py_add _ _ = Inl TypeError"

text \<open>
  Division in Python 2 without \<^verbatim>\<open>from __future__ import division\<close>: two ints divide
  with floor, anything with a float divides as floats, a zero divisor raises.
\<close>

fun py_div :: "pyval \<Rightarrow> pyval \<Rightarrow> pyval result" where
  "py_div (PyInt a) (PyInt b) = (if b = 0 then Inl ZeroDivisionError else Inr (PyInt (a div b)))"
| "py_div (PyInt a) (PyFloat b) =
     (if b = 0 then Inl ZeroDivisionError else Inr (PyFloat (of_int a / b)))"
| "py_div (PyFloat a) (PyInt b) =
     (if b = 0 then Inl ZeroDivisionError else Inr (PyFloat (a / of_int b)))"
| "py_div (PyFloat a) (PyFloat b) =
     (if b = 0 then Inl ZeroDivisionError else Inr (PyFloat (a / b)))"
| "py_div _ _ = Inl TypeError"

text \<open>Equality as \<^verbatim>\<open>==\<close> sees it: an int equals the float of the same value.\<close>

fun py_eq :: "pyval \<Rightarrow> pyval \<Rightarrow> bool" where
  "py_eq (PyInt a) (PyInt b) = (a = b)"
| "py_eq (PyInt a) (PyFloat b) = (of_int a = b)"
| "py_eq (PyFloat a) (PyInt b) = (a = of_int b)"
| "py_eq (PyFloat a) (PyFloat b) = (a = b)"
| "py_eq (PyStr s) (PyStr t) = (s = t)"
| "py_eq _ _ = False"

fun tuple_eq :: "pytuple \<Rightarrow> pytuple \<Rightarrow> bool" where
  "tuple_eq [] [] = True"
| "tuple_eq (x # xs) (y # ys) = (py_eq x y \<and> tuple_eq xs ys)"
| "tuple_eq _ _ = False"

fun is_numeric :: "pyval \<Rightarrow> bool" where
  "is_numeric (PyInt _) = True"
| "is_numeric (PyFloat _) = True"
| "is_numeric (PyStr _) = False"

subsection \<open>Expressions\<close>

text \<open>
  An expression evaluates to a value or raises.  A binary operator evaluates its left
  operand, then its right one, then applies the operation.
\<close>

definition Lit :: "pyval \<Rightarrow> pyval result" where
  "Lit v = Inr v"

definition binop :: "(pyval \<Rightarrow> pyval \<Rightarrow> pyval result) \<Rightarrow> pyval result \<Rightarrow> pyval result \<Rightarrow> pyval result" where
  "binop f a b = and_then a (\<lambda>x. and_then b (\<lambda>y. f x y))"

definition Mul :: "pyval result \<Rightarrow> pyval result \<Rightarrow> pyval result" where
  "Mul = binop py_mul"

definition Add :: "pyval result \<Rightarrow> pyval result \<Rightarrow> pyval result" where
  "Add = binop py_add"

definition Div :: "pyval result \<Rightarrow> pyval result \<Rightarrow> pyval result" where
  "Div = binop py_div"

definition np_pi :: "pyval result" where
  "np_pi = Lit (PyFloat pi)"

definition py_range :: "int \<Rightarrow> int list" where
  "py_range n = [0..n - 1]"

section \<open>Objects of the external libraries\<close>

text \<open>
  A pattern object is what the notebook makes of it: the class that was called and the
  keyword arguments that were passed, in the order written.  What the library does with
  them (defaults, validation, rendering) is outside the notebook.
\<close>

datatype pclass = SineGrating | HyperbolicGrating | ConcentricRings | SpiralGrating
  | RadialGrating | Rectangle | Asterisk | Ring | Angle | ArcCentered

datatype pattern = Pattern (cls: pclass) (kwargs: "(string \<times> pyval) list")

fun eval_kwargs :: "(string \<times> pyval result) list \<Rightarrow> (string \<times> pyval) list result" where
  "eval_kwargs [] = Inr []"
| "eval_kwargs ((k, r) # rest) =
     and_then r (\<lambda>v. and_then (eval_kwargs rest) (\<lambda>vs. Inr ((k, v) # vs)))"

definition call :: "pclass \<Rightarrow> (string \<times> pyval result) list \<Rightarrow> pattern result" where
  "call c kws = and_then (eval_kwargs kws) (\<lambda>vs. Inr (Pattern c vs))"

text \<open>\<^verbatim>\<open>p[:]\<close> renders a pattern; \<^verbatim>\<open>hv.Layout(xs)\<close>, \<^verbatim>\<open>hv.NdLayout(d, key_dimensions=ks)\<close>
  and \<^verbatim>\<open>.cols(n)\<close> are recorded as the calls they are.\<close>

datatype image = Image pattern

datatype layout = Layout "image list" | NdLayout "(pytuple \<times> image) list" "string list"

datatype display = Cols layout int

section \<open>Iteration, comprehensions and dicts\<close>

text \<open>
  A list can be iterated again and again; a generator (or any other iterator) yields its
  remaining items once and is empty afterwards.
\<close>

datatype 'a iterable = PyList "'a list" | PyIter "'a list"

fun iterate :: "'a iterable \<Rightarrow> 'a list \<times> 'a iterable" where
  "iterate (PyList xs) = (xs, PyList xs)"
| "iterate (PyIter xs) = (xs, PyIter [])"

text \<open>\<^verbatim>\<open>[f(x) for x in xs]\<close>: the first element that raises ends the comprehension.\<close>

fun list_comp :: "('a \<Rightarrow> 'b result) \<Rightarrow> 'a list \<Rightarrow> 'b list result" where
  "list_comp f [] = Inr []"
| "list_comp f (x # xs) =
     and_then (f x) (\<lambda>y. and_then (list_comp f xs) (\<lambda>ys. Inr (y # ys)))"

text \<open>
  \<^verbatim>\<open>(f(x) for x in xs)\<close>: a generator.  Its items are computed here rather than when they
  are drawn; in this notebook every generator is drawn in the statement after the one that
  creates it, in the same cell, so an error ends the same cell either way.
\<close>

definition gen_exp :: "('a \<Rightarrow> 'b result) \<Rightarrow> 'a list \<Rightarrow> 'b iterable result" where
  "gen_exp f xs = and_then (list_comp f xs) (\<lambda>ys. Inr (PyIter ys))"

text \<open>
  \<^verbatim>\<open>for a in as for b in B\<close>: the inner iterable \<open>B\<close> is iterated anew for every item of
  the outer loop, so a list gives all its items each time and an iterator only the first time.
\<close>

fun nested_for :: "'a list \<Rightarrow> 'b iterable \<Rightarrow> ('a \<times> 'b) list \<times> 'b iterable" where
  "nested_for [] B = ([], B)"
| "nested_for (a # as) B =
     (let (bs, B') = iterate B;
          (rest, B'') = nested_for as B'
      in (map (Pair a) bs @ rest, B''))"

text \<open>A dict keeps one entry per key; storing under a key that is present replaces the value.\<close>

fun dict_set :: "('k \<Rightarrow> 'k \<Rightarrow> bool) \<Rightarrow> ('k \<times> 'v) list \<Rightarrow> 'k \<Rightarrow> 'v \<Rightarrow> ('k \<times> 'v) list" where
  "dict_set eq [] k v = [(k, v)]"
| "dict_set eq ((k', v') # d) k v =
     (if eq k' k then (k', v) # d else (k', v') # dict_set eq d k v)"

fun dict_comp :: "('k \<Rightarrow> 'k \<Rightarrow> bool) \<Rightarrow> ('a \<Rightarrow> ('k \<times> 'v) result) \<Rightarrow> 'a list \<Rightarrow> ('k \<times> 'v) list
    \<Rightarrow> ('k \<times> 'v) list result" where
  "dict_comp eq f [] d = Inr d"
| "dict_comp eq f (x # xs) d =
     and_then (f x) (\<lambda>(k, v). dict_comp eq f xs (dict_set eq d k v))"

definition keys :: "('k \<times> 'v) list \<Rightarrow> 'k list" where
  "keys d = map fst d"

definition values_of :: "('k \<times> 'v) list \<Rightarrow> 'v list" where
  "values_of d = map snd d"

text \<open>\<^verbatim>\<open>zip\<close> in Python 2 returns a list.\<close>

definition py2_zip :: "'a list \<Rightarrow> 'b list \<Rightarrow> ('a \<times> 'b) iterable" where
  "py2_zip xs ys = PyList (zip xs ys)"

section \<open>The notebook\<close>

text \<open>
  The global namespace: one field per name that a statement of the notebook assigns, and the
  list of cell outputs.  The names that the imports bind are used as the library objects
  above.  The loop variables that the list comprehensions of Python 2 leave behind (\<^verbatim>\<open>j\<close>,
  \<^verbatim>\<open>i\<close>, \<^verbatim>\<open>p\<close>) are left out: nothing reads them.  No cell reads a name before the run has
  assigned it, so a run may start from any namespace.
\<close>

record namespace =
  variants :: int
  orientations :: "pyval iterable"
  frequencies :: "pyval list"
  sin_dict :: "(pytuple \<times> pattern) list"
  sinusoidal :: layout
  size_thickness :: "(pyval \<times> pyval) iterable"
  hyp :: "(pytuple \<times> pattern) list"
  hyperbolic :: layout
  pol1 :: "pattern list"
  pol2 :: "pattern list"
  pol3 :: "pattern list"
  pol4 :: "pattern list"
  pol5 :: "pattern list"
  pol6 :: "pattern list"
  polar :: "pattern list"
  bar1 :: "pattern list"
  bar2 :: "pattern list"
  bar :: "pattern list"
  star1 :: "pattern list"
  star2 :: "pattern list"
  tristar :: "pattern list"
  star3 :: "pattern list"
  star4 :: "pattern list"
  cross :: "pattern list"
  star5 :: "pattern list"
  star6 :: "pattern list"
  star :: "pattern list"
  ang1 :: "pattern list"
  ang2 :: "pattern list"
  acute :: "pattern list"
  ang3 :: "pattern list"
  ang4 :: "pattern list"
  right :: "pattern list"
  ang5 :: "pattern list"
  ang6 :: "pattern list"
  obtuse :: "pattern list"
  arc1 :: "pattern list"
  arc2 :: "pattern list"
  quarter :: "pattern list"
  arc3 :: "pattern list"
  arc4 :: "pattern list"
  semi :: "pattern list"
  arc5 :: "pattern list"
  arc6 :: "pattern list"
  threeqtrs :: "pattern list"
  concentric_like :: "pattern list"
  radial_like :: "pattern list"
  grating_stimuli_subclasses :: "pattern list list"
  grating_stimuli_subclasses_labels :: "string list"
  contour_stimuli_subclasses :: "pattern list list"
  contour_stimuli_subclasses_labels :: "string list"
  all_stimuli_subclasses :: "pattern list list"
  all_stimuli_subclasses_labels :: "string list"
  out :: "display list"


abbreviation IntL :: "int \<Rightarrow> pyval result" where
  "IntL n \<equiv> Lit (PyInt n)"

abbreviation FloatL :: "real \<Rightarrow> pyval result" where
  "FloatL x \<equiv> Lit (PyFloat x)"

text \<open>\<^verbatim>\<open>hv.Layout([p[:] for p in ps]).cols(n)\<close>, the last expression of most cells.\<close>

definition show_cols :: "pattern list \<Rightarrow> int \<Rightarrow> namespace \<Rightarrow> namespace" where
  "show_cols ps n s = s\<lparr>out := out s @ [Cols (Layout (map Image ps)) n]\<rparr>"

text \<open>\<^verbatim>\<open>{k: v[:] for k, v in d.items()}\<close>\<close>

definition render_items :: "(pytuple \<times> pattern) list \<Rightarrow> (pytuple \<times> image) list result" where
  "render_items d = dict_comp tuple_eq (\<lambda>(k, v). Inr (k, Image v)) d []"

subsection \<open>Cell 2: \<^verbatim>\<open>variants = 4\<close>\<close>

definition cell_variants :: "namespace \<Rightarrow> namespace result" where
  "cell_variants s = Inr (s\<lparr>variants := 4\<rparr>)"

subsection \<open>Cell 3: sinusoidal gratings\<close>

definition orientation_gen :: "pyval result \<Rightarrow> int \<Rightarrow> pyval iterable result" where
  \<comment> \<open>\<^verbatim>\<open>(i*np.pi/d for i in range(v))\<close>\<close>
  "orientation_gen d v = gen_exp (\<lambda>i. Div (Mul (IntL i) np_pi) d) (py_range v)"

definition sine_gratings :: "(pyval \<times> pyval) list \<Rightarrow> (pytuple \<times> pattern) list result" where
  \<comment> \<open>\<^verbatim>\<open>{(o, f): SineGrating(phase=np.pi/2, frequency=f,orientation=o) for ...}\<close>\<close>
  "sine_gratings ofs =
     dict_comp tuple_eq
       (\<lambda>(ori, fr). and_then
          (call SineGrating [(''phase'', Div np_pi (IntL 2)), (''frequency'', Lit fr),
                             (''orientation'', Lit ori)])
          (\<lambda>p. Inr ([ori, fr], p))) ofs []"

definition cell_sinusoidal :: "namespace \<Rightarrow> namespace result" where
  "cell_sinusoidal s0 =
     and_then (orientation_gen (IntL (variants s0)) (variants s0))
     (\<lambda>g. let s1 = s0\<lparr>orientations := g\<rparr>;
              s2 = s1\<lparr>frequencies := [PyFloat 2.0, PyFloat 3.1, PyFloat 4.2]\<rparr>;
              (os, g') = iterate (orientations s2);
              s3 = s2\<lparr>orientations := g'\<rparr>;
              (ofs, fs') = nested_for os (PyList (frequencies s3))
          in
     and_then (sine_gratings ofs)
     (\<lambda>d. let s4 = s3\<lparr>sin_dict := d\<rparr> in
     and_then (render_items (sin_dict s4))
     (\<lambda>imgs. let s5 = s4\<lparr>sinusoidal := NdLayout imgs [''Orientation'', ''Frequency'']\<rparr>
          in Inr (s5\<lparr>out := out s5 @ [Cols (sinusoidal s5) 6]\<rparr>))))"

subsection \<open>Cell 4: hyperbolic gratings\<close>

definition hyperbolic_gratings ::
    "(pyval \<times> pyval \<times> pyval) list \<Rightarrow> (pytuple \<times> pattern) list result" where
  \<comment> \<open>\<^verbatim>\<open>{(s, t, o): HyperbolicGrating(size=s, thickness=t, orientation=o) for ...}\<close>\<close>
  "hyperbolic_gratings osts =
     dict_comp tuple_eq
       (\<lambda>(ori, (sz, t)). and_then
          (call HyperbolicGrating [(''size'', Lit sz), (''thickness'', Lit t),
                                   (''orientation'', Lit ori)])
          (\<lambda>p. Inr ([sz, t, ori], p))) osts []"

definition cell_hyperbolic :: "namespace \<Rightarrow> namespace result" where
  "cell_hyperbolic s0 =
     (let s1 = s0\<lparr>size_thickness :=
                   py2_zip [PyFloat 0.18, PyFloat 0.27, PyFloat 0.36]
                           [PyFloat 0.015, PyFloat 0.03, PyFloat 0.04]\<rparr>
      in
     and_then (orientation_gen (Mul (IntL 2) (IntL (variants s1))) (variants s1))
     (\<lambda>g. let s2 = s1\<lparr>orientations := g\<rparr>;
              (os, g') = iterate (orientations s2);
              s3 = s2\<lparr>orientations := g'\<rparr>;
              (osts, st') = nested_for os (size_thickness s3);
              s4 = s3\<lparr>size_thickness := st'\<rparr>
          in
     and_then (hyperbolic_gratings osts)
     (\<lambda>d. let s5 = s4\<lparr>hyp := d\<rparr> in
     and_then (render_items (hyp s5))
     (\<lambda>imgs. let s6 = s5\<lparr>hyperbolic := NdLayout imgs [''Size'', ''Thickness'', ''Orientation'']\<rparr>
          in Inr (s6\<lparr>out := out s6 @ [Cols (hyperbolic s6) 6]\<rparr>)))))"

subsection \<open>Cell 5: polar gratings\<close>

definition ring_denominator :: "int \<Rightarrow> real \<Rightarrow> pyval result" where
  \<comment> \<open>\<^verbatim>\<open>1+j*c\<close>\<close>
  "ring_denominator j c = Add (IntL 1) (Mul (IntL j) (FloatL c))"

definition rings :: "int \<Rightarrow> pattern list result" where
  \<comment> \<open>\<^verbatim>\<open>[ConcentricRings(size=0.35/(1+j*0.5),thickness=0.05/(1+j*0.35),
        smoothing=0.05/(1+j*0.15)) for j in range(variants)]\<close>\<close>
  "rings v =
     list_comp (\<lambda>j. call ConcentricRings
        [(''size'', Div (FloatL 0.35) (ring_denominator j 0.5)),
         (''thickness'', Div (FloatL 0.05) (ring_denominator j 0.35)),
         (''smoothing'', Div (FloatL 0.05) (ring_denominator j 0.15))]) (py_range v)"

definition spirals :: "real \<Rightarrow> real \<Rightarrow> real \<Rightarrow> real \<Rightarrow> int \<Rightarrow> pattern list result" where
  \<comment> \<open>\<^verbatim>\<open>[SpiralGrating(parts=(j+1)*2,turning=t0+t1*j,smoothing=m0+m1*j)
        for j in range(variants)]\<close>\<close>
  "spirals t0 t1 m0 m1 v =
     list_comp (\<lambda>j. call SpiralGrating
        [(''parts'', Mul (Add (IntL j) (IntL 1)) (IntL 2)),
         (''turning'', Add (FloatL t0) (Mul (FloatL t1) (IntL j))),
         (''smoothing'', Add (FloatL m0) (Mul (FloatL m1) (IntL j)))]) (py_range v)"

definition radials :: "int \<Rightarrow> pattern list result" where
  \<comment> \<open>\<^verbatim>\<open>[RadialGrating(parts=(j+1)*2) for j in range(variants)]\<close>\<close>
  "radials v =
     list_comp (\<lambda>j. call RadialGrating
        [(''parts'', Mul (Add (IntL j) (IntL 1)) (IntL 2))]) (py_range v)"

definition cell_polar :: "namespace \<Rightarrow> namespace result" where
  "cell_polar s0 =
     and_then (rings (variants s0))
     (\<lambda>ps. let s1 = s0\<lparr>pol1 := ps\<rparr> in
     and_then (spirals 0.19 0.30 0.110 0.015 (variants s1))
     (\<lambda>ps. let s2 = s1\<lparr>pol2 := ps\<rparr> in
     and_then (spirals 0.09 0.13 0.050 0.006 (variants s2))
     (\<lambda>ps. let s3 = s2\<lparr>pol3 := ps\<rparr> in
     and_then (spirals 0.06 0.09 0.035 0.006 (variants s3))
     (\<lambda>ps. let s4 = s3\<lparr>pol4 := ps\<rparr> in
     and_then (spirals 0.05 0.07 0.030 0.003 (variants s4))
     (\<lambda>ps. let s5 = s4\<lparr>pol5 := ps\<rparr> in
     and_then (radials (variants s5))
     (\<lambda>ps. let s6 = s5\<lparr>pol6 := ps\<rparr>;
              s7 = s6\<lparr>polar := pol1 s6 @ pol2 s6 @ pol3 s6 @ pol4 s6 @ pol5 s6 @ pol6 s6\<rparr>
          in Inr (show_cols (polar s7) 8 s7)))))))"

subsection \<open>Cells 6 to 9: bars and stars\<close>

definition bars :: "real \<Rightarrow> real \<Rightarrow> int \<Rightarrow> pattern list result" where
  \<comment> \<open>\<^verbatim>\<open>[Rectangle(orientation=j*np.pi/4,smoothing=0.015,aspect_ratio=ar,size=sz)
        for j in range(variants)]\<close>\<close>
  "bars ar sz v =
     list_comp (\<lambda>j. call Rectangle
        [(''orientation'', Div (Mul (IntL j) np_pi) (IntL 4)), (''smoothing'', FloatL 0.015),
         (''aspect_ratio'', FloatL ar), (''size'', FloatL sz)]) (py_range v)"

definition cell_bar :: "namespace \<Rightarrow> namespace result" where
  "cell_bar s0 =
     and_then (bars 0.1 0.5 (variants s0))
     (\<lambda>ps. let s1 = s0\<lparr>bar1 := ps\<rparr> in
     and_then (bars 0.2 0.25 (variants s1))
     (\<lambda>ps. let s2 = s1\<lparr>bar2 := ps\<rparr>;
              s3 = s2\<lparr>bar := bar1 s2 @ bar2 s2\<rparr>
          in Inr (show_cols (bar s3) 8 s3)))"

definition asterisks :: "int \<Rightarrow> real \<Rightarrow> int \<Rightarrow> int \<Rightarrow> pattern list result" where
  \<comment> \<open>\<^verbatim>\<open>[Asterisk(parts=n, size=sz, orientation=j*np.pi/d) for j in range(variants)]\<close>\<close>
  "asterisks n sz d v =
     list_comp (\<lambda>j. call Asterisk
        [(''parts'', IntL n), (''size'', FloatL sz),
         (''orientation'', Div (Mul (IntL j) np_pi) (IntL d))]) (py_range v)"

definition cell_tristar :: "namespace \<Rightarrow> namespace result" where
  "cell_tristar s0 =
     and_then (asterisks 3 0.50 2 (variants s0))
     (\<lambda>ps. let s1 = s0\<lparr>star1 := ps\<rparr> in
     and_then (asterisks 3 0.25 2 (variants s1))
     (\<lambda>ps. let s2 = s1\<lparr>star2 := ps\<rparr>;
              s3 = s2\<lparr>tristar := star1 s2 @ star2 s2\<rparr>
          in Inr (show_cols (tristar s3) 8 s3)))"

definition cell_cross :: "namespace \<Rightarrow> namespace result" where
  "cell_cross s0 =
     and_then (asterisks 4 0.50 8 (variants s0))
     (\<lambda>ps. let s1 = s0\<lparr>star3 := ps\<rparr> in
     and_then (asterisks 4 0.25 8 (variants s1))
     (\<lambda>ps. let s2 = s1\<lparr>star4 := ps\<rparr>;
              s3 = s2\<lparr>cross := star3 s2 @ star4 s2\<rparr>
          in Inr (show_cols (cross s3) 8 s3)))"

definition star_group :: "real \<Rightarrow> real \<Rightarrow> real \<Rightarrow> pattern list result" where
  \<comment> \<open>\<^verbatim>\<open>xs = [Asterisk(parts=5, size=a, orientation=j*np.pi) for j in range(2)]\<close>,
      \<^verbatim>\<open>xs += [Asterisk(parts=6, size=b)]\<close>,
      \<^verbatim>\<open>xs += [Ring(smoothing=0.015,thickness=0.05,size=c)]\<close>\<close>
  "star_group a b c =
     and_then (list_comp (\<lambda>j. call Asterisk
        [(''parts'', IntL 5), (''size'', FloatL a), (''orientation'', Mul (IntL j) np_pi)])
        (py_range 2))
     (\<lambda>xs. and_then (call Asterisk [(''parts'', IntL 6), (''size'', FloatL b)])
     (\<lambda>p. let xs = xs @ [p] in
     and_then (call Ring [(''smoothing'', FloatL 0.015), (''thickness'', FloatL 0.05),
                          (''size'', FloatL c)])
     (\<lambda>q. Inr (xs @ [q]))))"

definition cell_star :: "namespace \<Rightarrow> namespace result" where
  "cell_star s0 =
     and_then (star_group 0.50 0.50 0.5)
     (\<lambda>ps. let s1 = s0\<lparr>star5 := ps\<rparr> in
     and_then (star_group 0.25 0.25 0.25)
     (\<lambda>ps. let s2 = s1\<lparr>star6 := ps\<rparr>;
              s3 = s2\<lparr>star := star5 s2 @ star6 s2\<rparr>
          in Inr (show_cols (star s3) 8 s3)))"

subsection \<open>Cells 10 to 15: angles and arcs\<close>

definition angles :: "real \<Rightarrow> int \<Rightarrow> int \<Rightarrow> pattern list result" where
  \<comment> \<open>\<^verbatim>\<open>[Angle(size=sz,angle=np.pi/d, orientation=j*2*np.pi/variants) for j in range(variants)]\<close>\<close>
  "angles sz d v =
     list_comp (\<lambda>j. call Angle
        [(''size'', FloatL sz), (''angle'', Div np_pi (IntL d)),
         (''orientation'', Div (Mul (Mul (IntL j) (IntL 2)) np_pi) (IntL v))]) (py_range v)"

definition cell_acute :: "namespace \<Rightarrow> namespace result" where
  "cell_acute s0 =
     and_then (angles 0.50 8 (variants s0))
     (\<lambda>ps. let s1 = s0\<lparr>ang1 := ps\<rparr> in
     and_then (angles 0.25 8 (variants s1))
     (\<lambda>ps. let s2 = s1\<lparr>ang2 := ps\<rparr>;
              s3 = s2\<lparr>acute := ang1 s2 @ ang2 s2\<rparr>
          in Inr (show_cols (acute s3) 8 s3)))"

definition cell_right :: "namespace \<Rightarrow> namespace result" where
  "cell_right s0 =
     and_then (angles 0.50 4 (variants s0))
     (\<lambda>ps. let s1 = s0\<lparr>ang3 := ps\<rparr> in
     and_then (angles 0.25 4 (variants s1))
     (\<lambda>ps. let s2 = s1\<lparr>ang4 := ps\<rparr>;
              s3 = s2\<lparr>right := ang3 s2 @ ang4 s2\<rparr>
          in Inr (show_cols (right s3) 8 s3)))"

definition cell_obtuse :: "namespace \<Rightarrow> namespace result" where
  "cell_obtuse s0 =
     and_then (angles 0.50 3 (variants s0))
     (\<lambda>ps. let s1 = s0\<lparr>ang5 := ps\<rparr> in
     and_then (angles 0.25 3 (variants s1))
     (\<lambda>ps. let s2 = s1\<lparr>ang6 := ps\<rparr>;
              s3 = s2\<lparr>obtuse := ang5 s2 @ ang6 s2\<rparr>
          in Inr (show_cols (obtuse s3) 8 s3)))"

definition arcs :: "pyval result \<Rightarrow> real \<Rightarrow> int \<Rightarrow> pattern list result" where
  \<comment> \<open>\<^verbatim>\<open>[ArcCentered(arc_length=a,smoothing=0.015,thickness=0.05,size=sz,
        orientation=i*2*np.pi/variants) for i in range(variants)]\<close>\<close>
  "arcs a sz v =
     list_comp (\<lambda>i. call ArcCentered
        [(''arc_length'', a), (''smoothing'', FloatL 0.015), (''thickness'', FloatL 0.05),
         (''size'', FloatL sz),
         (''orientation'', Div (Mul (Mul (IntL i) (IntL 2)) np_pi) (IntL v))]) (py_range v)"

definition cell_quarter :: "namespace \<Rightarrow> namespace result" where
  "cell_quarter s0 =
     and_then (arcs (Div np_pi (IntL 2)) 0.50 (variants s0))
     (\<lambda>ps. let s1 = s0\<lparr>arc1 := ps\<rparr> in
     and_then (arcs (Div np_pi (IntL 2)) 0.25 (variants s1))
     (\<lambda>ps. let s2 = s1\<lparr>arc2 := ps\<rparr>;
              s3 = s2\<lparr>quarter := arc1 s2 @ arc2 s2\<rparr>
          in Inr (show_cols (quarter s3) 8 s3)))"

definition cell_semi :: "namespace \<Rightarrow> namespace result" where
  "cell_semi s0 =
     and_then (arcs np_pi 0.5 (variants s0))
     (\<lambda>ps. let s1 = s0\<lparr>arc3 := ps\<rparr> in
     and_then (arcs np_pi 0.25 (variants s1))
     (\<lambda>ps. let s2 = s1\<lparr>arc4 := ps\<rparr>;
              s3 = s2\<lparr>semi := arc3 s2 @ arc4 s2\<rparr>
          in Inr (show_cols (semi s3) 8 s3)))"

definition cell_threeqtrs :: "namespace \<Rightarrow> namespace result" where
  "cell_threeqtrs s0 =
     and_then (arcs (Div (Mul (IntL 3) np_pi) (IntL 2)) 0.50 (variants s0))
     (\<lambda>ps. let s1 = s0\<lparr>arc5 := ps\<rparr> in
     and_then (arcs (Div (Mul (IntL 3) np_pi) (IntL 2)) 0.25 (variants s1))
     (\<lambda>ps. let s2 = s1\<lparr>arc6 := ps\<rparr>;
              s3 = s2\<lparr>threeqtrs := arc5 s2 @ arc6 s2\<rparr>
          in Inr (show_cols (threeqtrs s3) 8 s3)))"

subsection \<open>Cell 16: the subclasses and their labels\<close>

text \<open>
  \<^verbatim>\<open>xs[n:]\<close> is \<open>drop n xs\<close> and \<^verbatim>\<open>xs[:n]\<close> is \<open>take n xs\<close> for the literal indices used.
  Two string literals side by side are one literal, their concatenation.  A dict lists its
  values in an order of its own; here it is the order of insertion, and nothing below depends
  on it.
\<close>

definition cell_subclasses :: "namespace \<Rightarrow> namespace result" where
  "cell_subclasses s0 =
     (let s1 = s0\<lparr>concentric_like :=
                   pol1 s0 @ drop 1 (pol2 s0) @ drop 2 (pol3 s0) @ drop 2 (pol4 s0) @ drop 3 (pol5 s0)\<rparr>;
          s2 = s1\<lparr>radial_like :=
                   take 1 (pol2 s1) @ take 2 (pol3 s1) @ take 2 (pol4 s1) @ take 3 (pol5 s1) @ pol6 s1\<rparr>;
          s3 = s2\<lparr>grating_stimuli_subclasses :=
                   [values_of (sin_dict s2), values_of (hyp s2), concentric_like s2, radial_like s2]\<rparr>;
          s4 = s3\<lparr>grating_stimuli_subclasses_labels :=
                   [''sinusoidal'' @ ''hyperbolic'', ''concentric-like'', ''radial-like'']\<rparr>;
          s5 = s4\<lparr>contour_stimuli_subclasses :=
                   [bar s4, tristar s4, cross s4, star s4, acute s4, right s4, obtuse s4,
                    quarter s4, semi s4, threeqtrs s4]\<rparr>;
          s6 = s5\<lparr>contour_stimuli_subclasses_labels :=
                   [''bar'', ''tri-star'', ''cross'', ''star/circle'', ''acute angle'',
                    ''right angle'', ''obtuse angle'', ''quarter arc'', ''semi-circle'', ''3/4 arc'']\<rparr>;
          s7 = s6\<lparr>all_stimuli_subclasses :=
                   grating_stimuli_subclasses s6 @ contour_stimuli_subclasses s6\<rparr>;
          s8 = s7\<lparr>all_stimuli_subclasses_labels :=
                   grating_stimuli_subclasses_labels s7 @ contour_stimuli_subclasses_labels s7\<rparr>
      in Inr s8)"

text \<open>The last cell is text; it offers
  \<^verbatim>\<open>hv.Layout([p[:] for c in all_stimuli_subclasses for p in c]).cols(8)\<close> to the reader.\<close>

definition view_all :: "namespace \<Rightarrow> display" where
  "view_all s = Cols (Layout (map Image (concat (all_stimuli_subclasses s)))) 8"

subsection \<open>Running the cells in order\<close>

fun run_cells :: "(namespace \<Rightarrow> namespace result) list \<Rightarrow> namespace \<Rightarrow> namespace result" where
  "run_cells [] s = Inr s"
| "run_cells (c # cs) s = and_then (c s) (run_cells cs)"

definition notebook :: "namespace \<Rightarrow> namespace result" where
  "notebook = run_cells
     [cell_variants, cell_sinusoidal, cell_hyperbolic, cell_polar, cell_bar, cell_tristar,
      cell_cross, cell_star, cell_acute, cell_right, cell_obtuse, cell_quarter, cell_semi,
      cell_threeqtrs, cell_subclasses]"

section \<open>Running the model\<close>

lemma py_range_4: "py_range 4 = [0, 1, 2, 3]"
  by (simp add: py_range_def upto.simps)

lemma py_range_2: "py_range 2 = [0, 1]"
  by (simp add: py_range_def upto.simps)

lemmas ops = and_then_def Lit_def binop_def Mul_def Add_def Div_def np_pi_def call_def

subsection \<open>What the comprehensions compute\<close>

text \<open>
  A comprehension whose body cannot raise is a \<open>map\<close>; a dict comprehension whose body cannot
  raise is a \<open>fold\<close> of stores.  The bodies of this notebook cannot raise, whatever the value
  of \<open>variants\<close>: a divisor is a literal, or \<open>variants\<close> inside a loop that runs only when it
  is positive, or one plus a product of non-negative numbers.
\<close>

lemma list_comp_map:
  assumes "\<And>x. x \<in> set xs \<Longrightarrow> f x = Inr (g x)"
  shows "list_comp f xs = Inr (map g xs)"
  using assms by (induction xs) (simp_all add: and_then_def)

lemma dict_comp_fold:
  assumes "\<And>x. x \<in> set xs \<Longrightarrow> f x = Inr (g x)"
  shows "dict_comp eq f xs d = Inr (fold (\<lambda>x d. dict_set eq d (fst (g x)) (snd (g x))) xs d)"
  using assms by (induction xs arbitrary: d) (simp_all add: and_then_def split_beta)

lemma py_range_nonneg: "j \<in> set (py_range v) \<Longrightarrow> 0 \<le> j"
  by (simp add: py_range_def)

lemma py_range_positive: "j \<in> set (py_range v) \<Longrightarrow> 0 < v"
  by (simp add: py_range_def)

lemma ring_denominator_value: "ring_denominator j c = Inr (PyFloat (1 + real_of_int j * c))"
  by (simp add: ring_denominator_def ops)

lemma ring_denominator_bound: "0 \<le> j \<Longrightarrow> 0 \<le> c \<Longrightarrow> 1 \<le> 1 + real_of_int j * c"
  by simp

lemma rings_value:
  "rings v = Inr (map (\<lambda>j. Pattern ConcentricRings
      [(''size'', PyFloat (0.35 / (1 + real_of_int j * 0.5))),
       (''thickness'', PyFloat (0.05 / (1 + real_of_int j * 0.35))),
       (''smoothing'', PyFloat (0.05 / (1 + real_of_int j * 0.15)))]) (py_range v))"
  unfolding rings_def
proof (rule list_comp_map)
  fix j assume "j \<in> set (py_range v)"
  then have j: "0 \<le> j" by (rule py_range_nonneg)
  have "1 + real_of_int j * 0.5 \<noteq> 0" "1 + real_of_int j * 0.35 \<noteq> 0"
    "1 + real_of_int j * 0.15 \<noteq> 0"
    using ring_denominator_bound[OF j, of "0.5"] ring_denominator_bound[OF j, of "0.35"]
      ring_denominator_bound[OF j, of "0.15"] by auto
  then show "call ConcentricRings
      [(''size'', Div (FloatL 0.35) (ring_denominator j 0.5)),
       (''thickness'', Div (FloatL 0.05) (ring_denominator j 0.35)),
       (''smoothing'', Div (FloatL 0.05) (ring_denominator j 0.15))] =
    Inr (Pattern ConcentricRings
      [(''size'', PyFloat (0.35 / (1 + real_of_int j * 0.5))),
       (''thickness'', PyFloat (0.05 / (1 + real_of_int j * 0.35))),
       (''smoothing'', PyFloat (0.05 / (1 + real_of_int j * 0.15)))])"
    by (simp add: ring_denominator_value ops)
qed

lemma spirals_value:
  "spirals t0 t1 m0 m1 v = Inr (map (\<lambda>j. Pattern SpiralGrating
      [(''parts'', PyInt ((j + 1) * 2)),
       (''turning'', PyFloat (t0 + t1 * real_of_int j)),
       (''smoothing'', PyFloat (m0 + m1 * real_of_int j))]) (py_range v))"
  unfolding spirals_def by (rule list_comp_map) (simp add: ops)

lemma radials_value:
  "radials v = Inr (map (\<lambda>j. Pattern RadialGrating [(''parts'', PyInt ((j + 1) * 2))])
      (py_range v))"
  unfolding radials_def by (rule list_comp_map) (simp add: ops)

lemma bars_value:
  "bars ar sz v = Inr (map (\<lambda>j. Pattern Rectangle
      [(''orientation'', PyFloat (real_of_int j * pi / 4)), (''smoothing'', PyFloat 0.015),
       (''aspect_ratio'', PyFloat ar), (''size'', PyFloat sz)]) (py_range v))"
  unfolding bars_def by (rule list_comp_map) (simp add: ops)

lemma asterisks_value:
  "d \<noteq> 0 \<Longrightarrow> asterisks n sz d v = Inr (map (\<lambda>j. Pattern Asterisk
      [(''parts'', PyInt n), (''size'', PyFloat sz),
       (''orientation'', PyFloat (real_of_int j * pi / real_of_int d))]) (py_range v))"
  unfolding asterisks_def by (rule list_comp_map) (simp add: ops)

lemma star_group_value:
  "star_group a b c = Inr
     (map (\<lambda>j. Pattern Asterisk
        [(''parts'', PyInt 5), (''size'', PyFloat a),
         (''orientation'', PyFloat (real_of_int j * pi))]) (py_range 2) @
      [Pattern Asterisk [(''parts'', PyInt 6), (''size'', PyFloat b)],
       Pattern Ring [(''smoothing'', PyFloat 0.015), (''thickness'', PyFloat 0.05),
                     (''size'', PyFloat c)]])"
  by (simp add: star_group_def py_range_2 ops)

lemma angles_value:
  "d \<noteq> 0 \<Longrightarrow> angles sz d v = Inr (map (\<lambda>j. Pattern Angle
      [(''size'', PyFloat sz), (''angle'', PyFloat (pi / real_of_int d)),
       (''orientation'', PyFloat (real_of_int (j * 2) * pi / real_of_int v))]) (py_range v))"
  unfolding angles_def
proof (rule list_comp_map)
  fix j assume "j \<in> set (py_range v)"
  then have "v \<noteq> 0" using py_range_positive by fastforce
  moreover assume "d \<noteq> 0"
  ultimately show "call Angle
      [(''size'', FloatL sz), (''angle'', Div np_pi (IntL d)),
       (''orientation'', Div (Mul (Mul (IntL j) (IntL 2)) np_pi) (IntL v))] =
    Inr (Pattern Angle
      [(''size'', PyFloat sz), (''angle'', PyFloat (pi / real_of_int d)),
       (''orientation'', PyFloat (real_of_int (j * 2) * pi / real_of_int v))])"
    by (simp add: ops)
qed

lemma arcs_value:
  "arcs (Inr a) sz v = Inr (map (\<lambda>i. Pattern ArcCentered
      [(''arc_length'', a), (''smoothing'', PyFloat 0.015), (''thickness'', PyFloat 0.05),
       (''size'', PyFloat sz),
       (''orientation'', PyFloat (real_of_int (i * 2) * pi / real_of_int v))]) (py_range v))"
  unfolding arcs_def
proof (rule list_comp_map)
  fix i assume "i \<in> set (py_range v)"
  then have "v \<noteq> 0" using py_range_positive by fastforce
  then show "call ArcCentered
      [(''arc_length'', Inr a), (''smoothing'', FloatL 0.015), (''thickness'', FloatL 0.05),
       (''size'', FloatL sz),
       (''orientation'', Div (Mul (Mul (IntL i) (IntL 2)) np_pi) (IntL v))] =
    Inr (Pattern ArcCentered
      [(''arc_length'', a), (''smoothing'', PyFloat 0.015), (''thickness'', PyFloat 0.05),
       (''size'', PyFloat sz),
       (''orientation'', PyFloat (real_of_int (i * 2) * pi / real_of_int v))])"
    by (simp add: ops)
qed

lemma sine_gratings_value:
  "sine_gratings ofs = Inr (fold (\<lambda>(ori, fr) d. dict_set tuple_eq d [ori, fr]
      (Pattern SineGrating
         [(''phase'', PyFloat (pi / 2)), (''frequency'', fr), (''orientation'', ori)])) ofs [])"
proof -
  have "sine_gratings ofs = Inr (fold (\<lambda>x d. dict_set tuple_eq d
      (fst (case x of (ori, fr) \<Rightarrow> ([ori, fr], Pattern SineGrating
         [(''phase'', PyFloat (pi / 2)), (''frequency'', fr), (''orientation'', ori)])))
      (snd (case x of (ori, fr) \<Rightarrow> ([ori, fr], Pattern SineGrating
         [(''phase'', PyFloat (pi / 2)), (''frequency'', fr), (''orientation'', ori)])))) ofs [])"
    unfolding sine_gratings_def by (rule dict_comp_fold) (auto simp: ops)
  then show ?thesis by (simp add: case_prod_unfold)
qed

lemma hyperbolic_gratings_value:
  "hyperbolic_gratings osts = Inr (fold (\<lambda>(ori, sz, t) d. dict_set tuple_eq d [sz, t, ori]
      (Pattern HyperbolicGrating
         [(''size'', sz), (''thickness'', t), (''orientation'', ori)])) osts [])"
proof -
  have "hyperbolic_gratings osts = Inr (fold (\<lambda>x d. dict_set tuple_eq d
      (fst (case x of (ori, sz, t) \<Rightarrow> ([sz, t, ori], Pattern HyperbolicGrating
         [(''size'', sz), (''thickness'', t), (''orientation'', ori)])))
      (snd (case x of (ori, sz, t) \<Rightarrow> ([sz, t, ori], Pattern HyperbolicGrating
         [(''size'', sz), (''thickness'', t), (''orientation'', ori)])))) osts [])"
    unfolding hyperbolic_gratings_def by (rule dict_comp_fold) (auto simp: ops)
  then show ?thesis by (simp add: case_prod_unfold)
qed

lemma render_items_value:
  "render_items d = Inr (fold (\<lambda>(k, v) d'. dict_set tuple_eq d' k (Image v)) d [])"
proof -
  have "render_items d = Inr (fold (\<lambda>x d'. dict_set tuple_eq d'
      (fst (case x of (k, v) \<Rightarrow> (k, Image v))) (snd (case x of (k, v) \<Rightarrow> (k, Image v)))) d [])"
    unfolding render_items_def by (rule dict_comp_fold) auto
  then show ?thesis by (simp add: case_prod_unfold)
qed

lemmas comprehension_values = rings_value spirals_value radials_value bars_value asterisks_value
  star_group_value angles_value arcs_value sine_gratings_value hyperbolic_gratings_value
  render_items_value py_range_4 py_range_2

subsection \<open>What the cells do\<close>

text \<open>
  Each cell, run in a namespace where \<open>variants\<close> is 4, returns the namespace with the names
  it binds updated.  The values are written as the results of the comprehensions; \<open>projr\<close>
  takes the value out of a result that is not an error.
\<close>

lemma cell_sinusoidal_run:
  "variants s = 4 \<Longrightarrow> cell_sinusoidal s =
     (let fs = [PyFloat 2.0, PyFloat 3.1, PyFloat 4.2];
          d = projr (sine_gratings
                (List.product (map (\<lambda>i. PyFloat (real_of_int i * pi / 4)) [0, 1, 2, 3]) fs));
          l = NdLayout (projr (render_items d)) [''Orientation'', ''Frequency'']
      in Inr (s\<lparr>orientations := PyIter [], frequencies := fs, sin_dict := d, sinusoidal := l,
                out := out s @ [Cols l 6]\<rparr>))"
  by (simp add: cell_sinusoidal_def orientation_gen_def gen_exp_def sine_gratings_def
        render_items_def py_range_4 ops Let_def)

lemma cell_hyperbolic_run:
  "variants s = 4 \<Longrightarrow> cell_hyperbolic s =
     (let st = [(PyFloat 0.18, PyFloat 0.015), (PyFloat 0.27, PyFloat 0.03),
                (PyFloat 0.36, PyFloat 0.04)];
          d = projr (hyperbolic_gratings
                (List.product (map (\<lambda>i. PyFloat (real_of_int i * pi / 8)) [0, 1, 2, 3]) st));
          l = NdLayout (projr (render_items d)) [''Size'', ''Thickness'', ''Orientation'']
      in Inr (s\<lparr>orientations := PyIter [], size_thickness := PyList st, hyp := d,
                hyperbolic := l, out := out s @ [Cols l 6]\<rparr>))"
  by (simp add: cell_hyperbolic_def orientation_gen_def gen_exp_def hyperbolic_gratings_def
        render_items_def py2_zip_def py_range_4 ops Let_def)

lemma cell_polar_run:
  "variants s = 4 \<Longrightarrow> cell_polar s =
     (let p1 = projr (rings 4);
          p2 = projr (spirals 0.19 0.30 0.110 0.015 4);
          p3 = projr (spirals 0.09 0.13 0.050 0.006 4);
          p4 = projr (spirals 0.06 0.09 0.035 0.006 4);
          p5 = projr (spirals 0.05 0.07 0.030 0.003 4);
          p6 = projr (radials 4);
          p = p1 @ p2 @ p3 @ p4 @ p5 @ p6
      in Inr (s\<lparr>pol1 := p1, pol2 := p2, pol3 := p3, pol4 := p4, pol5 := p5, pol6 := p6,
                polar := p, out := out s @ [Cols (Layout (map Image p)) 8]\<rparr>))"
  by (simp add: cell_polar_def rings_def ring_denominator_def spirals_def radials_def
        show_cols_def py_range_4 ops Let_def)

lemma cell_bar_run:
  "variants s = 4 \<Longrightarrow> cell_bar s =
     (let g1 = projr (bars 0.1 0.5 4);
          g2 = projr (bars 0.2 0.25 4)
      in Inr (s\<lparr>bar1 := g1, bar2 := g2, bar := g1 @ g2,
                out := out s @ [Cols (Layout (map Image (g1 @ g2))) 8]\<rparr>))"
  by (simp add: cell_bar_def bars_def show_cols_def py_range_4 ops Let_def)

lemma cell_tristar_run:
  "variants s = 4 \<Longrightarrow> cell_tristar s =
     (let g1 = projr (asterisks 3 0.50 2 4);
          g2 = projr (asterisks 3 0.25 2 4)
      in Inr (s\<lparr>star1 := g1, star2 := g2, tristar := g1 @ g2,
                out := out s @ [Cols (Layout (map Image (g1 @ g2))) 8]\<rparr>))"
  by (simp add: cell_tristar_def asterisks_def show_cols_def py_range_4 ops Let_def)

lemma cell_cross_run:
  "variants s = 4 \<Longrightarrow> cell_cross s =
     (let g1 = projr (asterisks 4 0.50 8 4);
          g2 = projr (asterisks 4 0.25 8 4)
      in Inr (s\<lparr>star3 := g1, star4 := g2, cross := g1 @ g2,
                out := out s @ [Cols (Layout (map Image (g1 @ g2))) 8]\<rparr>))"
  by (simp add: cell_cross_def asterisks_def show_cols_def py_range_4 ops Let_def)

lemma cell_star_run:
  "cell_star s =
     (let g1 = projr (star_group 0.50 0.50 0.5);
          g2 = projr (star_group 0.25 0.25 0.25)
      in Inr (s\<lparr>star5 := g1, star6 := g2, star := g1 @ g2,
                out := out s @ [Cols (Layout (map Image (g1 @ g2))) 8]\<rparr>))"
  by (simp add: cell_star_def star_group_def py_range_2 show_cols_def py_range_4 ops Let_def)

lemma cell_acute_run:
  "variants s = 4 \<Longrightarrow> cell_acute s =
     (let g1 = projr (angles 0.50 8 4);
          g2 = projr (angles 0.25 8 4)
      in Inr (s\<lparr>ang1 := g1, ang2 := g2, acute := g1 @ g2,
                out := out s @ [Cols (Layout (map Image (g1 @ g2))) 8]\<rparr>))"
  by (simp add: cell_acute_def angles_def show_cols_def py_range_4 ops Let_def)

lemma cell_right_run:
  "variants s = 4 \<Longrightarrow> cell_right s =
     (let g1 = projr (angles 0.50 4 4);
          g2 = projr (angles 0.25 4 4)
      in Inr (s\<lparr>ang3 := g1, ang4 := g2, right := g1 @ g2,
                out := out s @ [Cols (Layout (map Image (g1 @ g2))) 8]\<rparr>))"
  by (simp add: cell_right_def angles_def show_cols_def py_range_4 ops Let_def)

lemma cell_obtuse_run:
  "variants s = 4 \<Longrightarrow> cell_obtuse s =
     (let g1 = projr (angles 0.50 3 4);
          g2 = projr (angles 0.25 3 4)
      in Inr (s\<lparr>ang5 := g1, ang6 := g2, obtuse := g1 @ g2,
                out := out s @ [Cols (Layout (map Image (g1 @ g2))) 8]\<rparr>))"
  by (simp add: cell_obtuse_def angles_def show_cols_def py_range_4 ops Let_def)

lemma cell_quarter_run:
  "variants s = 4 \<Longrightarrow> cell_quarter s =
     (let g1 = projr (arcs (Div np_pi (IntL 2)) 0.50 4);
          g2 = projr (arcs (Div np_pi (IntL 2)) 0.25 4)
      in Inr (s\<lparr>arc1 := g1, arc2 := g2, quarter := g1 @ g2,
                out := out s @ [Cols (Layout (map Image (g1 @ g2))) 8]\<rparr>))"
  by (simp add: cell_quarter_def arcs_def show_cols_def py_range_4 ops Let_def)

lemma cell_semi_run:
  "variants s = 4 \<Longrightarrow> cell_semi s =
     (let g1 = projr (arcs np_pi 0.5 4);
          g2 = projr (arcs np_pi 0.25 4)
      in Inr (s\<lparr>arc3 := g1, arc4 := g2, semi := g1 @ g2,
                out := out s @ [Cols (Layout (map Image (g1 @ g2))) 8]\<rparr>))"
  by (simp add: cell_semi_def arcs_def show_cols_def py_range_4 ops Let_def)

lemma cell_threeqtrs_run:
  "variants s = 4 \<Longrightarrow> cell_threeqtrs s =
     (let g1 = projr (arcs (Div (Mul (IntL 3) np_pi) (IntL 2)) 0.50 4);
          g2 = projr (arcs (Div (Mul (IntL 3) np_pi) (IntL 2)) 0.25 4)
      in Inr (s\<lparr>arc5 := g1, arc6 := g2, threeqtrs := g1 @ g2,
                out := out s @ [Cols (Layout (map Image (g1 @ g2))) 8]\<rparr>))"
  by (simp add: cell_threeqtrs_def arcs_def show_cols_def py_range_4 ops Let_def)


text \<open>The whole run, from any namespace: every name is bound anew, the outputs are appended.\<close>

lemma notebook_run:
  "notebook s =
     (let fs = [PyFloat 2.0, PyFloat 3.1, PyFloat 4.2];
          sd = projr (sine_gratings
                 (List.product (map (\<lambda>i. PyFloat (real_of_int i * pi / 4)) [0, 1, 2, 3]) fs));
          sl = NdLayout (projr (render_items sd)) [''Orientation'', ''Frequency''];
          st = [(PyFloat 0.18, PyFloat 0.015), (PyFloat 0.27, PyFloat 0.03),
                (PyFloat 0.36, PyFloat 0.04)];
          hd = projr (hyperbolic_gratings
                 (List.product (map (\<lambda>i. PyFloat (real_of_int i * pi / 8)) [0, 1, 2, 3]) st));
          hl = NdLayout (projr (render_items hd)) [''Size'', ''Thickness'', ''Orientation''];
          p1 = projr (rings 4);
          p2 = projr (spirals 0.19 0.30 0.110 0.015 4);
          p3 = projr (spirals 0.09 0.13 0.050 0.006 4);
          p4 = projr (spirals 0.06 0.09 0.035 0.006 4);
          p5 = projr (spirals 0.05 0.07 0.030 0.003 4);
          p6 = projr (radials 4);
          p = p1 @ p2 @ p3 @ p4 @ p5 @ p6;
          b1 = projr (bars 0.1 0.5 4);
          b2 = projr (bars 0.2 0.25 4);
          t1 = projr (asterisks 3 0.50 2 4);
          t2 = projr (asterisks 3 0.25 2 4);
          c1 = projr (asterisks 4 0.50 8 4);
          c2 = projr (asterisks 4 0.25 8 4);
          g1 = projr (star_group 0.50 0.50 0.5);
          g2 = projr (star_group 0.25 0.25 0.25);
          a1 = projr (angles 0.50 8 4);
          a2 = projr (angles 0.25 8 4);
          a3 = projr (angles 0.50 4 4);
          a4 = projr (angles 0.25 4 4);
          a5 = projr (angles 0.50 3 4);
          a6 = projr (angles 0.25 3 4);
          r1 = projr (arcs (Div np_pi (IntL 2)) 0.50 4);
          r2 = projr (arcs (Div np_pi (IntL 2)) 0.25 4);
          r3 = projr (arcs np_pi 0.5 4);
          r4 = projr (arcs np_pi 0.25 4);
          r5 = projr (arcs (Div (Mul (IntL 3) np_pi) (IntL 2)) 0.50 4);
          r6 = projr (arcs (Div (Mul (IntL 3) np_pi) (IntL 2)) 0.25 4);
          cl = p1 @ drop 1 p2 @ drop 2 p3 @ drop 2 p4 @ drop 3 p5;
          rl = take 1 p2 @ take 2 p3 @ take 2 p4 @ take 3 p5 @ p6;
          gs = [values_of sd, values_of hd, cl, rl];
          gls = [''sinusoidalhyperbolic'', ''concentric-like'', ''radial-like''];
          cs = [b1 @ b2, t1 @ t2, c1 @ c2, g1 @ g2, a1 @ a2, a3 @ a4, a5 @ a6,
                r1 @ r2, r3 @ r4, r5 @ r6];
          cls = [''bar'', ''tri-star'', ''cross'', ''star/circle'', ''acute angle'',
                 ''right angle'', ''obtuse angle'', ''quarter arc'', ''semi-circle'', ''3/4 arc'']
      in Inr (s\<lparr>variants := 4, orientations := PyIter [], frequencies := fs, sin_dict := sd,
                sinusoidal := sl, size_thickness := PyList st, hyp := hd, hyperbolic := hl,
                pol1 := p1, pol2 := p2, pol3 := p3, pol4 := p4, pol5 := p5, pol6 := p6,
                polar := p,
                bar1 := b1, bar2 := b2, bar := b1 @ b2,
                star1 := t1, star2 := t2, tristar := t1 @ t2,
                star3 := c1, star4 := c2, cross := c1 @ c2,
                star5 := g1, star6 := g2, star := g1 @ g2,
                ang1 := a1, ang2 := a2, acute := a1 @ a2,
                ang3 := a3, ang4 := a4, right := a3 @ a4,
                ang5 := a5, ang6 := a6, obtuse := a5 @ a6,
                arc1 := r1, arc2 := r2, quarter := r1 @ r2,
                arc3 := r3, arc4 := r4, semi := r3 @ r4,
                arc5 := r5, arc6 := r6, threeqtrs := r5 @ r6,
                concentric_like := cl, radial_like := rl,
                grating_stimuli_subclasses := gs, grating_stimuli_subclasses_labels := gls,
                contour_stimuli_subclasses := cs, contour_stimuli_subclasses_labels := cls,
                all_stimuli_subclasses := gs @ cs, all_stimuli_subclasses_labels := gls @ cls,
                out := out s @
                  [Cols sl 6, Cols hl 6, Cols (Layout (map Image p)) 8,
                   Cols (Layout (map Image (b1 @ b2))) 8, Cols (Layout (map Image (t1 @ t2))) 8,
                   Cols (Layout (map Image (c1 @ c2))) 8, Cols (Layout (map Image (g1 @ g2))) 8,
                   Cols (Layout (map Image (a1 @ a2))) 8, Cols (Layout (map Image (a3 @ a4))) 8,
                   Cols (Layout (map Image (a5 @ a6))) 8, Cols (Layout (map Image (r1 @ r2))) 8,
                   Cols (Layout (map Image (r3 @ r4))) 8,
                   Cols (Layout (map Image (r5 @ r6))) 8]\<rparr>))"
  by (simp add: notebook_def and_then_def cell_variants_def cell_sinusoidal_run
        cell_hyperbolic_run cell_polar_run cell_bar_run cell_tristar_run cell_cross_run
        cell_star_run cell_acute_run cell_right_run cell_obtuse_run cell_quarter_run
        cell_semi_run cell_threeqtrs_run cell_subclasses_def Let_def)

section \<open>The gratings\<close>

text \<open>
  What the nested loop of a comprehension draws from its inner iterable: all pairs when it
  is a list, the pairs of the first outer item only when it is an iterator.
\<close>

lemma nested_for_list: "nested_for as (PyList bs) = (List.product as bs, PyList bs)"
  by (induction as) simp_all

lemma nested_for_spent: "nested_for as (PyIter []) = ([], PyIter [])"
  by (induction as) simp_all

lemma nested_for_iterator: "nested_for (a # as) (PyIter bs) = (map (Pair a) bs, PyIter [])"
  by (simp add: nested_for_spent)

text \<open>
  C3.  After the run, the dict \<^verbatim>\<open>sin\<close> has one entry for each pair of an orientation
  \<open>i * pi / 4\<close>, \<open>i\<close> from 0 to 3, and a frequency among 2.0, 3.1 and 4.2: its keys are these
  twelve tuples (orientation, frequency), all different, and each value is the sine grating
  made from the key.
\<close>

theorem sin_twelve_entries:
  "\<exists>s'. notebook s = Inr s' \<and>
     set (keys (sin_dict s')) =
       set (map (\<lambda>(i, f). [PyFloat (real_of_int i * pi / 4), PyFloat f])
              (List.product [0, 1, 2, 3] [2.0, 3.1, 4.2])) \<and>
     distinct (keys (sin_dict s')) \<and>
     length (sin_dict s') = 12 \<and>
     list_all (\<lambda>(k, p). p = Pattern SineGrating
                 [(''phase'', PyFloat (pi / 2)), (''frequency'', k ! 1), (''orientation'', k ! 0)])
       (sin_dict s')"
  apply (simp add: notebook_run Let_def)
  apply (simp add: comprehension_values keys_def)
  done

text \<open>
  C1.  After the run, the dict \<^verbatim>\<open>hyp\<close> has one entry for each pair of an orientation
  \<open>i * pi / 8\<close>, \<open>i\<close> from 0 to 3, and a (size, thickness) among (0.18, 0.015), (0.27, 0.03)
  and (0.36, 0.04): its keys are these twelve tuples (size, thickness, orientation), all
  different, and each value is the hyperbolic grating made from the key.  The inner loop runs
  over \<^verbatim>\<open>size_thickness\<close>, which \<^verbatim>\<open>zip\<close> of Python 2 returns as a list.
\<close>

theorem hyp_twelve_entries:
  "\<exists>s'. notebook s = Inr s' \<and>
     set (keys (hyp s')) =
       set (map (\<lambda>(i, sz, t). [PyFloat sz, PyFloat t, PyFloat (real_of_int i * pi / 8)])
              (List.product [0, 1, 2, 3] [(0.18, 0.015), (0.27, 0.03), (0.36, 0.04)])) \<and>
     distinct (keys (hyp s')) \<and>
     length (hyp s') = 12 \<and>
     list_all (\<lambda>(k, p). p = Pattern HyperbolicGrating
                 [(''size'', k ! 0), (''thickness'', k ! 1), (''orientation'', k ! 2)]) (hyp s')"
  apply (simp add: notebook_run Let_def)
  apply (simp add: comprehension_values keys_def)
  done

text \<open>
  C4.  After the run, \<^verbatim>\<open>polar\<close> is \<^verbatim>\<open>pol1 + pol2 + pol3 + pol4 + pol5 + pol6\<close> and has 24
  elements, all different; \<^verbatim>\<open>concentric_like\<close> and \<^verbatim>\<open>radial_like\<close> have 12 elements each,
  have no element in common and together hold exactly the elements of \<^verbatim>\<open>polar\<close>, so that
  every element of \<^verbatim>\<open>polar\<close> is in one of them and not in the other.  Patterns are compared
  by class and arguments; as the 24 patterns differ in these, the same holds of the objects.
\<close>

theorem polar_partition:
  "\<exists>s'. notebook s = Inr s' \<and>
     polar s' = pol1 s' @ pol2 s' @ pol3 s' @ pol4 s' @ pol5 s' @ pol6 s' \<and>
     length (polar s') = 24 \<and>
     distinct (polar s') \<and>
     length (concentric_like s') = 12 \<and>
     length (radial_like s') = 12 \<and>
     set (concentric_like s') \<inter> set (radial_like s') = {} \<and>
     set (concentric_like s') \<union> set (radial_like s') = set (polar s') \<and>
     list_all (\<lambda>p. (p \<in> set (concentric_like s')) \<noteq> (p \<in> set (radial_like s'))) (polar s')"
  apply (simp add: notebook_run Let_def)
  apply (simp add: comprehension_values)
  apply (simp only: insert_commute)
  done

section \<open>The contours\<close>

text \<open>
  C5.  After the run, each of the ten contour subclasses \<^verbatim>\<open>bar\<close>, \<^verbatim>\<open>tristar\<close>, \<^verbatim>\<open>cross\<close>,
  \<^verbatim>\<open>star\<close>, \<^verbatim>\<open>acute\<close>, \<^verbatim>\<open>right\<close>, \<^verbatim>\<open>obtuse\<close>, \<^verbatim>\<open>quarter\<close>, \<^verbatim>\<open>semi\<close> and \<^verbatim>\<open>threeqtrs\<close> is
  the concatenation of two groups of four patterns, the first all of size 0.50 and the second
  all of size 0.25, and so has \<open>2 * variants = 8\<close> patterns.
\<close>

theorem contour_subclasses_eight:
  "\<exists>s'. notebook s = Inr s' \<and>
     variants s' = 4 \<and>
     contour_stimuli_subclasses s' =
       [bar s', tristar s', cross s', star s', acute s', right s', obtuse s', quarter s',
        semi s', threeqtrs s'] \<and>
     contour_stimuli_subclasses s' =
       map (\<lambda>(g1, g2). g1 @ g2)
         [(bar1 s', bar2 s'), (star1 s', star2 s'), (star3 s', star4 s'), (star5 s', star6 s'),
          (ang1 s', ang2 s'), (ang3 s', ang4 s'), (ang5 s', ang6 s'), (arc1 s', arc2 s'),
          (arc3 s', arc4 s'), (arc5 s', arc6 s')] \<and>
     list_all (\<lambda>c. int (length c) = 2 * variants s' \<and> length c = 8)
       (contour_stimuli_subclasses s') \<and>
     list_all (\<lambda>g. length g = 4 \<and>
                 list_all (\<lambda>p. map_of (kwargs p) ''size'' = Some (PyFloat 0.50)) g)
       [bar1 s', star1 s', star3 s', star5 s', ang1 s', ang3 s', ang5 s', arc1 s', arc3 s',
        arc5 s'] \<and>
     list_all (\<lambda>g. length g = 4 \<and>
                 list_all (\<lambda>p. map_of (kwargs p) ''size'' = Some (PyFloat 0.25)) g)
       [bar2 s', star2 s', star4 s', star6 s', ang2 s', ang4 s', ang6 s', arc2 s', arc4 s',
        arc6 s']"
  apply (simp add: notebook_run Let_def)
  apply (simp add: comprehension_values ops)
  done

section \<open>The subclasses and their labels\<close>

text \<open>
  C6.  After the run, \<^verbatim>\<open>all_stimuli_subclasses\<close> is \<^verbatim>\<open>grating_stimuli_subclasses\<close> followed
  by \<^verbatim>\<open>contour_stimuli_subclasses\<close>: the four grating subclasses (the values of \<^verbatim>\<open>sin\<close>, the
  values of \<^verbatim>\<open>hyp\<close>, \<^verbatim>\<open>concentric_like\<close>, \<^verbatim>\<open>radial_like\<close>) and then the ten contour
  subclasses, fourteen lists in this order.
\<close>

theorem all_subclasses_order:
  "\<exists>s'. notebook s = Inr s' \<and>
     grating_stimuli_subclasses s' =
       [values_of (sin_dict s'), values_of (hyp s'), concentric_like s', radial_like s'] \<and>
     contour_stimuli_subclasses s' =
       [bar s', tristar s', cross s', star s', acute s', right s', obtuse s', quarter s',
        semi s', threeqtrs s'] \<and>
     all_stimuli_subclasses s' = grating_stimuli_subclasses s' @ contour_stimuli_subclasses s' \<and>
     all_stimuli_subclasses s' =
       [values_of (sin_dict s'), values_of (hyp s'), concentric_like s', radial_like s',
        bar s', tristar s', cross s', star s', acute s', right s', obtuse s', quarter s',
        semi s', threeqtrs s'] \<and>
     length (grating_stimuli_subclasses s') = 4 \<and>
     length (contour_stimuli_subclasses s') = 10 \<and>
     length (all_stimuli_subclasses s') = 14"
  by (simp add: notebook_run Let_def)

text \<open>
  C2.  What the code computes for the labels.  The two literals \<^verbatim>\<open>'sinusoidal''hyperbolic'\<close>
  have no comma between them and are one label, so there are three grating labels for four
  grating subclasses and thirteen labels for fourteen subclasses, while the contours have ten
  labels for ten subclasses.  Paired by position, every label after the first names the
  subclass before its own (\<^verbatim>\<open>'concentric-like'\<close> falls on the values of \<^verbatim>\<open>hyp\<close>), and
  \<^verbatim>\<open>threeqtrs\<close> has no label.
\<close>

theorem labels_evaluated:
  "\<exists>s'. notebook s = Inr s' \<and>
     grating_stimuli_subclasses_labels s' =
       [''sinusoidalhyperbolic'', ''concentric-like'', ''radial-like''] \<and>
     length (grating_stimuli_subclasses_labels s') = 3 \<and>
     length (grating_stimuli_subclasses s') = 4 \<and>
     length (contour_stimuli_subclasses_labels s') = 10 \<and>
     length (contour_stimuli_subclasses s') = 10 \<and>
     length (all_stimuli_subclasses_labels s') = 13 \<and>
     length (all_stimuli_subclasses s') = 14 \<and>
     map snd (zip (all_stimuli_subclasses_labels s') (all_stimuli_subclasses s')) =
       butlast (all_stimuli_subclasses s') \<and>
     last (all_stimuli_subclasses s') = threeqtrs s' \<and>
     all_stimuli_subclasses_labels s' ! 1 = ''concentric-like'' \<and>
     all_stimuli_subclasses s' ! 1 = values_of (hyp s')"
  by (simp add: notebook_run Let_def)

section \<open>Errors, layouts, arguments and reruns\<close>

text \<open>
  The error branches are there: a zero divisor raises, a comprehension that divides by zero
  returns the error, and a run stops at the first cell that raises.
\<close>

lemma zero_divisor_raises:
  "Div (FloatL x) (IntL 0) = Inl ZeroDivisionError"
  "Div (FloatL x) (FloatL 0) = Inl ZeroDivisionError"
  "Div (IntL n) (IntL 0) = Inl ZeroDivisionError"
  by (simp_all add: ops)

lemma angles_zero_divisor: "angles sz 0 4 = Inl ZeroDivisionError"
  by (simp add: angles_def py_range_4 ops)

lemma run_cells_stops: "c s = Inl e \<Longrightarrow> run_cells (c # cs) s = Inl e"
  by (simp add: and_then_def)

text \<open>
  C7.  The run returns a namespace from any namespace: no cell raises.  For every \<open>j\<close> of
  \<^verbatim>\<open>range(variants)\<close> the three denominators \<open>1 + j * 0.5\<close>, \<open>1 + j * 0.35\<close> and
  \<open>1 + j * 0.15\<close> of the \<^verbatim>\<open>ConcentricRings\<close> comprehension evaluate to floats that are not
  zero (they are at least 1), the comprehension returns \<^verbatim>\<open>pol1\<close> with its four patterns, and
  it would return a list for any other value of \<^verbatim>\<open>variants\<close> as well.
\<close>

theorem rings_never_divide_by_zero:
  "\<exists>s'. notebook s = Inr s' \<and>
     list_all (\<lambda>j. list_all (\<lambda>c. ring_denominator j c = Inr (PyFloat (1 + real_of_int j * c)) \<and>
                                  1 + real_of_int j * c \<noteq> 0 \<and> 1 \<le> 1 + real_of_int j * c)
                       [0.5, 0.35, 0.15])
       (py_range (variants s')) \<and>
     rings (variants s') = Inr (pol1 s') \<and>
     length (pol1 s') = 4 \<and>
     (\<forall>v. \<exists>ps. rings v = Inr ps \<and> int (length ps) = max 0 v)"
proof -
  have "list_all (\<lambda>j. list_all (\<lambda>c. ring_denominator j c = Inr (PyFloat (1 + real_of_int j * c)) \<and>
                                     1 + real_of_int j * c \<noteq> 0 \<and> 1 \<le> 1 + real_of_int j * c)
                          [0.5, 0.35, 0.15]) (py_range 4)"
    by (simp add: py_range_4 ring_denominator_value)
  moreover have "\<exists>ps. rings v = Inr ps \<and> int (length ps) = max 0 v" for v
    by (simp add: rings_value py_range_def)
  moreover have "length (projr (rings 4)) = 4"
    by (simp add: rings_value py_range_4)
  moreover have "rings 4 = Inr (projr (rings 4))"
    by (simp add: rings_value)
  ultimately show ?thesis
    by (simp add: notebook_run Let_def)
qed

text \<open>
  C8.  The run adds thirteen outputs: the layouts of \<^verbatim>\<open>sin\<close> and of \<^verbatim>\<open>hyp\<close> with 6 columns,
  then the layouts of \<^verbatim>\<open>polar\<close> and of each of the ten contour subclasses with 8 columns.  The
  layout of all stimuli that the closing text cell offers has 8 columns too.
\<close>

theorem layout_columns:
  "\<exists>s'. notebook s = Inr s' \<and>
     out s' = out s @
       [Cols (sinusoidal s') 6, Cols (hyperbolic s') 6,
        Cols (Layout (map Image (polar s'))) 8,
        Cols (Layout (map Image (bar s'))) 8, Cols (Layout (map Image (tristar s'))) 8,
        Cols (Layout (map Image (cross s'))) 8, Cols (Layout (map Image (star s'))) 8,
        Cols (Layout (map Image (acute s'))) 8, Cols (Layout (map Image (right s'))) 8,
        Cols (Layout (map Image (obtuse s'))) 8, Cols (Layout (map Image (quarter s'))) 8,
        Cols (Layout (map Image (semi s'))) 8, Cols (Layout (map Image (threeqtrs s'))) 8] \<and>
     sinusoidal s' =
       NdLayout (map (\<lambda>(k, p). (k, Image p)) (sin_dict s')) [''Orientation'', ''Frequency''] \<and>
     hyperbolic s' =
       NdLayout (map (\<lambda>(k, p). (k, Image p)) (hyp s')) [''Size'', ''Thickness'', ''Orientation''] \<and>
     view_all s' = Cols (Layout (map Image (concat (all_stimuli_subclasses s')))) 8"
  apply (simp add: notebook_run Let_def view_all_def)
  apply (simp add: comprehension_values)
  done

text \<open>
  C9.  After the run, the 128 patterns that the constructor calls have made (the values of the
  two dicts and the elements of the lists bound by a comprehension) are of the class their
  list is named for, and every keyword argument of every one of them is an int or a float.
\<close>

theorem constructor_arguments_numeric:
  "\<exists>s'. notebook s = Inr s' \<and>
     (let calls = values_of (sin_dict s') @ values_of (hyp s') @
            pol1 s' @ pol2 s' @ pol3 s' @ pol4 s' @ pol5 s' @ pol6 s' @
            bar1 s' @ bar2 s' @ star1 s' @ star2 s' @ star3 s' @ star4 s' @ star5 s' @ star6 s' @
            ang1 s' @ ang2 s' @ ang3 s' @ ang4 s' @ ang5 s' @ ang6 s' @
            arc1 s' @ arc2 s' @ arc3 s' @ arc4 s' @ arc5 s' @ arc6 s'
      in length calls = 128 \<and>
         list_all (\<lambda>p. list_all (\<lambda>(k, v). is_numeric v) (kwargs p)) calls) \<and>
     list_all (\<lambda>p. cls p = SineGrating) (values_of (sin_dict s')) \<and>
     list_all (\<lambda>p. cls p = HyperbolicGrating) (values_of (hyp s')) \<and>
     list_all (\<lambda>p. cls p = ConcentricRings) (pol1 s') \<and>
     list_all (\<lambda>p. cls p = SpiralGrating) (pol2 s' @ pol3 s' @ pol4 s' @ pol5 s') \<and>
     list_all (\<lambda>p. cls p = RadialGrating) (pol6 s') \<and>
     list_all (\<lambda>p. cls p = Rectangle) (bar1 s' @ bar2 s') \<and>
     list_all (\<lambda>p. cls p = Asterisk) (star1 s' @ star2 s' @ star3 s' @ star4 s') \<and>
     map cls (star5 s') = [Asterisk, Asterisk, Asterisk, Ring] \<and>
     map cls (star6 s') = [Asterisk, Asterisk, Asterisk, Ring] \<and>
     list_all (\<lambda>p. cls p = Angle) (ang1 s' @ ang2 s' @ ang3 s' @ ang4 s' @ ang5 s' @ ang6 s') \<and>
     list_all (\<lambda>p. cls p = ArcCentered)
       (arc1 s' @ arc2 s' @ arc3 s' @ arc4 s' @ arc5 s' @ arc6 s')"
  apply (simp add: notebook_run Let_def)
  apply (simp add: comprehension_values values_of_def ops)
  done

text \<open>
  C10.  Two runs, from any two namespaces, bind every name to the same value: the namespaces
  they return differ at most in the outputs that were there before.  In particular the keys of
  \<^verbatim>\<open>sin\<close> and \<^verbatim>\<open>hyp\<close> and the sets of argument lists of every subclass are the same, and a
  second run in the namespace the first one left (with its spent generator) binds the same
  values again.
\<close>

theorem enumeration_independent_of_namespace:
  "\<exists>s' t'. notebook s = Inr s' \<and> notebook t = Inr t' \<and>
     s'\<lparr>out := []\<rparr> = t'\<lparr>out := []\<rparr> \<and>
     set (keys (sin_dict s')) = set (keys (sin_dict t')) \<and>
     set (keys (hyp s')) = set (keys (hyp t')) \<and>
     map (\<lambda>c. set (map kwargs c)) (all_stimuli_subclasses s') =
       map (\<lambda>c. set (map kwargs c)) (all_stimuli_subclasses t') \<and>
     orientations s' = PyIter [] \<and>
     (\<exists>s''. notebook s' = Inr s'' \<and> s''\<lparr>out := []\<rparr> = s'\<lparr>out := []\<rparr>)"
  by (simp add: notebook_run Let_def)

end
